theory Spec2Isabelle
  imports Complex_Main "HOL-Library.Word" "HOL-Library.AList"
begin

section \<open>Python values, exceptions and the outside world\<close>

text \<open>
  The request builders of \<^verbatim>\<open>services/*.py\<close> and the result handling of \<^verbatim>\<open>app.py\<close>
  are embedded as HOL functions. A Python call either returns a value or raises; the
  model returns \<open>pyexc + 'a\<close> with \<open>Inl\<close> for the raised exception. Network traffic is
  made explicit: every builder takes the remote end as a function and returns, next to
  its result, the list of requests it has sent.
\<close>

datatype pyexc =
    ValueError string
  | TypeError
  | KeyError
  | IndexError
  | AttributeError
  | OpenAIError
  | Exception string

text \<open>
  \<^verbatim>\<open>response.json()\<close> and the request payloads are JSON values. A Python \<^verbatim>\<open>dict\<close> is
  an association list in insertion order whose lookup finds the binding of a key.
\<close>

datatype json =
    JNull
  | JBool bool
  | JInt int
  | JFloat real
  | JStr string
  | JArr "json list"
  | JObj "(string \<times> json) list"

type_synonym pydict = "(string \<times> json) list"

type_synonym byte = "8 word"

text \<open>Python truthiness (\<^verbatim>\<open>if x:\<close>, \<^verbatim>\<open>x or y\<close>, \<^verbatim>\<open>not x\<close>).\<close>

fun truthy :: "json \<Rightarrow> bool" where
  "truthy JNull = False"
| "truthy (JBool b) = b"
| "truthy (JInt i) = (i \<noteq> 0)"
| "truthy (JFloat r) = (r \<noteq> 0)"
| "truthy (JStr s) = (s \<noteq> [])"
| "truthy (JArr xs) = (xs \<noteq> [])"
| "truthy (JObj kvs) = (kvs \<noteq> [])"

text \<open>An optional string, bytes or list argument: \<^verbatim>\<open>None\<close> and the empty value are falsy.\<close>

fun truthy_opt :: "'a list option \<Rightarrow> bool" where
  "truthy_opt None = False"
| "truthy_opt (Some xs) = (xs \<noteq> [])"

text \<open>\<^verbatim>\<open>a or b\<close> on optional strings.\<close>

definition py_or :: "'a list option \<Rightarrow> 'a list option \<Rightarrow> 'a list option" where
  "py_or a b = (if truthy_opt a then a else b)"

text \<open>\<^verbatim>\<open>d[k] = v\<close>: an existing key keeps its place, a new key goes to the end.\<close>

definition dict_set :: "string \<Rightarrow> json \<Rightarrow> pydict \<Rightarrow> pydict" where
  "dict_set k v d = AList.update k v d"

definition dict_get :: "pydict \<Rightarrow> string \<Rightarrow> json option" where
  "dict_get d k = map_of d k"

definition dict_keys :: "pydict \<Rightarrow> string set" where
  "dict_keys d = fst ` set d"

text \<open>\<^verbatim>\<open>os.getenv\<close>: the process environment.\<close>

type_synonym environ = "string \<Rightarrow> string option"

subsection \<open>base64\<close>

text \<open>
  \<^verbatim>\<open>base64.b64encode(x).decode("utf-8")\<close>: the standard alphabet with \<^verbatim>\<open>=\<close> padding.
  Given \<^verbatim>\<open>None\<close> instead of bytes the library raises \<^verbatim>\<open>TypeError\<close>.
\<close>

definition b64_alphabet :: string where
  "b64_alphabet = ''ABCDEFGHIJKLMNOPQRSTUVWXYZabcdefghijklmnopqrstuvwxyz0123456789+/''"

definition b64_char :: "nat \<Rightarrow> char" where
  "b64_char n = b64_alphabet ! (n mod 64)"

fun b64_groups :: "byte list \<Rightarrow> string" where
  "b64_groups [] = []"
| "b64_groups [a] =
     (let n = unat a * 65536
      in [b64_char (n div 262144), b64_char (n div 4096), CHR ''='', CHR ''=''])"
| "b64_groups [a, b] =
     (let n = unat a * 65536 + unat b * 256
      in [b64_char (n div 262144), b64_char (n div 4096), b64_char (n div 64), CHR ''=''])"
| "b64_groups (a # b # c # rest) =
     (let n = unat a * 65536 + unat b * 256 + unat c
      in [b64_char (n div 262144), b64_char (n div 4096), b64_char (n div 64), b64_char n]
         @ b64_groups rest)"

definition b64encode :: "byte list option \<Rightarrow> pyexc + string" where
  "b64encode x = (case x of None \<Rightarrow> Inl TypeError | Some bs \<Rightarrow> Inr (b64_groups bs))"

subsection \<open>The HTTP client\<close>

text \<open>
  One \<^verbatim>\<open>requests.post(url, headers=..., json=data, timeout=15)\<close> followed by
  \<^verbatim>\<open>raise_for_status()\<close> and \<^verbatim>\<open>.json()\<close>. The remote end decides which of the
  \<^verbatim>\<open>except\<close> clauses of a builder fires, or which body is returned.
\<close>

record http_request =
  post_url :: string
  post_headers :: "(string \<times> string) list"
  post_json :: pydict
  post_timeout :: nat

datatype http_outcome =
    Raised_Timeout
  | Raised_HTTPError string
  | Raised_RequestException string
  | Raised_ValueError string
  | Returned json

type_synonym network = "http_request \<Rightarrow> http_outcome"

text \<open>The three headers every builder sends.\<close>

definition bria_headers :: "string \<Rightarrow> (string \<times> string) list" where
  "bria_headers api_key =
     [(''api_token'', api_key), (''Accept'', ''application/json''),
      (''Content-Type'', ''application/json'')]"

text \<open>
  The \<^verbatim>\<open>try\<close> block that ends every builder: one POST, and each \<^verbatim>\<open>except\<close> clause
  re-raised as a plain \<^verbatim>\<open>Exception\<close>. The builders differ only in the message of the
  timeout clause and in the prefix of the other three.
\<close>

definition bria_post :: "string \<Rightarrow> string \<Rightarrow> network \<Rightarrow> http_request \<Rightarrow> pyexc + json" where
  "bria_post timeout_msg prefix net req =
     (case net req of
        Raised_Timeout \<Rightarrow> Inl (Exception timeout_msg)
      | Raised_HTTPError m \<Rightarrow> Inl (Exception (prefix @ m))
      | Raised_RequestException m \<Rightarrow> Inl (Exception (prefix @ m))
      | Raised_ValueError m \<Rightarrow> Inl (Exception (prefix @ ''Invalid JSON response.''))
      | Returned j \<Rightarrow> Inr j)"

text \<open>The two \<^verbatim>\<open>ValueError\<close>s the builders raise themselves, told apart by message.\<close>

definition MissingCredential :: pyexc where
  "MissingCredential =
     ValueError ''Bria API key is missing. Set BRIA_API_KEY in environment variables.''"

definition is_InvalidInput :: "pyexc \<Rightarrow> bool" where
  "is_InvalidInput e \<longleftrightarrow>
     e = ValueError ''Either image_data or image_url must be provided'' \<or>
     e = ValueError ''Either image_data or image_url must be provided.''"

section \<open>services/shadow.py\<close>

record shadow_args =
  api_key :: "string option"
  image_data :: "byte list option"
  image_url :: "string option"
  shadow_type :: string
  background_color :: "string option"
  shadow_color :: string
  shadow_offset :: "int list"
  shadow_intensity :: int
  shadow_blur :: "int option"
  shadow_width :: "int option"
  shadow_height :: "int option"
  sku :: "string option"
  force_rmbg :: bool
  content_moderation :: bool

text \<open>The defaults of the signature of \<^verbatim>\<open>add_shadow\<close>: what an argument is when the
  caller does not pass it.\<close>

definition add_shadow_defaults :: shadow_args where
  "add_shadow_defaults =
     \<lparr> api_key = None, image_data = None, image_url = None, shadow_type = ''regular'',
       background_color = None, shadow_color = ''#000000'', shadow_offset = [0, 15],
       shadow_intensity = 60, shadow_blur = None, shadow_width = None,
       shadow_height = Some 70, sku = None, force_rmbg = False,
       content_moderation = False \<rparr>"

definition BRIA_SHADOW_URL :: string where
  "BRIA_SHADOW_URL = ''https://engine.prod.bria-api.com/v1/product/shadow''"

text \<open>The optional parameters, added to \<^verbatim>\<open>data\<close> after the image source.\<close>

definition shadow_optional :: "shadow_args \<Rightarrow> pydict \<Rightarrow> pydict" where
  "shadow_optional a data0 =
     (let data1 = (if truthy_opt (background_color a)
                   then dict_set ''background_color'' (JStr (the (background_color a))) data0
                   else data0);
          data2 = (case shadow_blur a of None \<Rightarrow> data1
                   | Some v \<Rightarrow> dict_set ''shadow_blur'' (JInt v) data1);
          data3 = (case shadow_width a of None \<Rightarrow> data2
                   | Some v \<Rightarrow> dict_set ''shadow_width'' (JInt v) data2);
          data4 = (case shadow_height a of None \<Rightarrow> data3
                   | Some v \<Rightarrow> dict_set ''shadow_height'' (JInt v) data3)
      in if truthy_opt (sku a) then dict_set ''sku'' (JStr (the (sku a))) data4 else data4)"

definition add_shadow ::
  "environ \<Rightarrow> network \<Rightarrow> shadow_args \<Rightarrow> (pyexc + json) \<times> http_request list" where
  "add_shadow env net a =
     (let key = py_or (api_key a) (env ''BRIA_API_KEY'')
      in if \<not> truthy_opt key then (Inl MissingCredential, [])
         else
           let data = [(''shadow_type'', JStr (shadow_type a)),
                       (''shadow_color'', JStr (shadow_color a)),
                       (''shadow_intensity'', JInt (shadow_intensity a)),
                       (''force_rmbg'', JBool (force_rmbg a)),
                       (''content_moderation'', JBool (content_moderation a)),
                       (''shadow_offset'', JArr (map JInt (shadow_offset a)))];
               src = (if truthy_opt (image_url a)
                      then Inr (dict_set ''image_url'' (JStr (the (image_url a))) data)
                      else if truthy_opt (image_data a)
                      then (case b64encode (image_data a) of
                              Inl e \<Rightarrow> Inl e
                            | Inr s \<Rightarrow> Inr (dict_set ''file'' (JStr s) data))
                      else Inl (ValueError ''Either image_data or image_url must be provided''))
           in case src of
                Inl e \<Rightarrow> (Inl e, [])
              | Inr data1 \<Rightarrow>
                  let req = \<lparr> post_url = BRIA_SHADOW_URL, post_headers = bria_headers (the key),
                              post_json = shadow_optional a data1, post_timeout = 15 \<rparr>
                  in (bria_post ''Shadow addition failed due to timeout.'' ''Shadow addition failed: ''
                        net req, [req]))"

section \<open>services/erase_foreground.py\<close>

record erase_args =
  api_key :: "string option"
  image_data :: "byte list option"
  image_url :: "string option"
  content_moderation :: bool

definition erase_foreground_defaults :: erase_args where
  "erase_foreground_defaults =
     \<lparr> api_key = None, image_data = None, image_url = None, content_moderation = False \<rparr>"

definition BRIA_ERASE_FOREGROUND_URL :: string where
  "BRIA_ERASE_FOREGROUND_URL = ''https://engine.prod.bria-api.com/v1/erase_foreground''"

definition erase_foreground ::
  "environ \<Rightarrow> network \<Rightarrow> erase_args \<Rightarrow> (pyexc + json) \<times> http_request list" where
  "erase_foreground env net a =
     (let key = py_or (erase_args.api_key a) (env ''BRIA_API_KEY'')
      in if \<not> truthy_opt key then (Inl MissingCredential, [])
         else if \<not> truthy_opt (erase_args.image_data a) \<and> \<not> truthy_opt (erase_args.image_url a)
         then (Inl (ValueError ''Either image_data or image_url must be provided.''), [])
         else
           let data = [(''content_moderation'', JBool (erase_args.content_moderation a))];
               src = (if truthy_opt (erase_args.image_url a)
                      then Inr (dict_set ''image_url'' (JStr (the (erase_args.image_url a))) data)
                      else (case b64encode (erase_args.image_data a) of
                              Inl e \<Rightarrow> Inl e
                            | Inr s \<Rightarrow> Inr (dict_set ''file'' (JStr s) data)))
           in case src of
                Inl e \<Rightarrow> (Inl e, [])
              | Inr data1 \<Rightarrow>
                  let req = \<lparr> post_url = BRIA_ERASE_FOREGROUND_URL, post_headers = bria_headers (the key),
                              post_json = data1, post_timeout = 15 \<rparr>
                  in (bria_post ''Erase foreground failed: Request timeout.''
                        ''Erase foreground failed: '' net req, [req]))"

section \<open>services/packshot.py\<close>

text \<open>\<^verbatim>\<open>image_data\<close> has no default; a caller can still pass \<^verbatim>\<open>None\<close>.\<close>

record packshot_args =
  image_data :: "byte list option"
  background_color :: string
  sku :: "string option"
  force_rmbg :: bool
  content_moderation :: bool
  api_key :: "string option"

definition BRIA_PACKSHOT_URL :: string where
  "BRIA_PACKSHOT_URL = ''https://engine.prod.bria-api.com/v1/product/packshot''"

definition create_packshot ::
  "environ \<Rightarrow> network \<Rightarrow> packshot_args \<Rightarrow> (pyexc + json) \<times> http_request list" where
  "create_packshot env net a =
     (let key = py_or (packshot_args.api_key a) (env ''BRIA_API_KEY'')
      in if \<not> truthy_opt key then (Inl MissingCredential, [])
         else
           case b64encode (packshot_args.image_data a) of
             Inl e \<Rightarrow> (Inl e, [])
           | Inr image_base64 \<Rightarrow>
               let data = [(''file'', JStr image_base64),
                           (''background_color'', JStr (packshot_args.background_color a)),
                           (''force_rmbg'', JBool (packshot_args.force_rmbg a)),
                           (''content_moderation'', JBool (packshot_args.content_moderation a))];
                   data1 = (if truthy_opt (packshot_args.sku a)
                            then dict_set ''sku'' (JStr (the (packshot_args.sku a))) data
                            else data);
                   req = \<lparr> post_url = BRIA_PACKSHOT_URL, post_headers = bria_headers (the key),
                           post_json = data1, post_timeout = 15 \<rparr>
               in (bria_post ''Packshot creation failed due to timeout.''
                     ''Packshot creation failed: '' net req, [req]))"

section \<open>services/generative_fills.py\<close>

record gen_fill_args =
  api_key :: "string option"
  image_data :: "byte list option"
  mask_data :: "byte list option"
  prompt :: string
  negative_prompt :: "string option"
  num_results :: int
  sync :: bool
  seed :: "int option"
  content_moderation :: bool
  mask_type :: string

definition generative_fill_defaults :: gen_fill_args where
  "generative_fill_defaults =
     \<lparr> api_key = None, image_data = None, mask_data = None, prompt = [],
       negative_prompt = None, num_results = 4, sync = False, seed = None,
       content_moderation = False, mask_type = ''manual'' \<rparr>"

definition BRIA_GEN_FILL_URL :: string where
  "BRIA_GEN_FILL_URL = ''https://engine.prod.bria-api.com/v1/gen_fill''"

definition generative_fill ::
  "environ \<Rightarrow> network \<Rightarrow> gen_fill_args \<Rightarrow> (pyexc + json) \<times> http_request list" where
  "generative_fill env net a =
     (let key = py_or (gen_fill_args.api_key a) (env ''BRIA_API_KEY'')
      in if \<not> truthy_opt key then (Inl MissingCredential, [])
         else
           case b64encode (gen_fill_args.image_data a) of
             Inl e \<Rightarrow> (Inl e, [])
           | Inr image_base64 \<Rightarrow>
              (case b64encode (gen_fill_args.mask_data a) of
                 Inl e \<Rightarrow> (Inl e, [])
               | Inr mask_base64 \<Rightarrow>
                   let data = [(''file'', JStr image_base64),
                               (''mask_file'', JStr mask_base64),
                               (''mask_type'', JStr (gen_fill_args.mask_type a)),
                               (''prompt'', JStr (gen_fill_args.prompt a)),
                               (''num_results'', JInt (max 1 (min (gen_fill_args.num_results a) 4))),
                               (''sync'', JBool (gen_fill_args.sync a)),
                               (''content_moderation'', JBool (gen_fill_args.content_moderation a))];
                       data1 = (if truthy_opt (gen_fill_args.negative_prompt a)
                                then dict_set ''negative_prompt''
                                       (JStr (the (gen_fill_args.negative_prompt a))) data
                                else data);
                       data2 = (case gen_fill_args.seed a of None \<Rightarrow> data1
                                | Some v \<Rightarrow> dict_set ''seed'' (JInt v) data1);
                       req = \<lparr> post_url = BRIA_GEN_FILL_URL, post_headers = bria_headers (the key),
                               post_json = data2, post_timeout = 15 \<rparr>
                   in (bria_post ''Generative fill failed: Request timeout.''
                         ''Generative fill failed: '' net req, [req])))"

section \<open>services/lifestyle_shot.py\<close>

record lifestyle_text_args =
  api_key :: "string option"
  image_data :: "byte list option"
  scene_description :: string
  placement_type :: string
  num_results :: int
  sync :: bool
  fast :: bool
  optimize_description :: bool
  original_quality :: bool
  exclude_elements :: "string option"
  shot_size :: "int list"
  manual_placement_selection :: "string list"
  padding_values :: "int list"
  foreground_image_size :: "int list option"
  foreground_image_location :: "int list option"
  force_rmbg :: bool
  content_moderation :: bool
  sku :: "string option"

definition lifestyle_shot_by_text_defaults :: lifestyle_text_args where
  "lifestyle_shot_by_text_defaults =
     \<lparr> api_key = None, image_data = None, scene_description = [],
       placement_type = ''original'', num_results = 4, sync = False, fast = True,
       optimize_description = True, original_quality = False, exclude_elements = None,
       shot_size = [1000, 1000], manual_placement_selection = [''upper_left''],
       padding_values = [0, 0, 0, 0], foreground_image_size = None,
       foreground_image_location = None, force_rmbg = False, content_moderation = False,
       sku = None \<rparr>"

definition BRIA_TEXT_LIFESTYLE_URL :: string where
  "BRIA_TEXT_LIFESTYLE_URL =
     ''https://engine.prod.bria-api.com/v1/product/lifestyle_shot_by_text''"

definition BRIA_IMAGE_LIFESTYLE_URL :: string where
  "BRIA_IMAGE_LIFESTYLE_URL =
     ''https://engine.prod.bria-api.com/v1/product/lifestyle_shot_by_image''"

text \<open>
  The placement fields and the SKU: the same six \<^verbatim>\<open>if\<close> statements close the payload
  of both lifestyle builders.
\<close>

definition placement_fields ::
  "string \<Rightarrow> int list \<Rightarrow> string list \<Rightarrow> int list \<Rightarrow> int list option \<Rightarrow> int list option \<Rightarrow>
   string option \<Rightarrow> pydict \<Rightarrow> pydict" where
  "placement_fields placement_type' shot_size' manual_placement_selection' padding_values'
       foreground_image_size' foreground_image_location' sku' data0 =
     (let data1 = (if placement_type' \<in> set [''automatic'', ''manual_placement'', ''custom_coordinates'']
                   then dict_set ''shot_size'' (JArr (map JInt shot_size')) data0 else data0);
          data2 = (if placement_type' = ''manual_placement''
                   then dict_set ''manual_placement_selection''
                          (JArr (map JStr manual_placement_selection')) data1
                   else data1);
          data3 = (if placement_type' = ''manual_padding''
                   then dict_set ''padding_values'' (JArr (map JInt padding_values')) data2
                   else data2);
          data4 = (if placement_type' = ''custom_coordinates''
                   then
                     let d = (if truthy_opt foreground_image_size'
                              then dict_set ''foreground_image_size''
                                     (JArr (map JInt (the foreground_image_size'))) data3
                              else data3)
                     in if truthy_opt foreground_image_location'
                        then dict_set ''foreground_image_location''
                               (JArr (map JInt (the foreground_image_location'))) d
                        else d
                   else data3)
      in if truthy_opt sku' then dict_set ''sku'' (JStr (the sku')) data4 else data4)"

definition lifestyle_shot_by_text ::
  "environ \<Rightarrow> network \<Rightarrow> lifestyle_text_args \<Rightarrow> (pyexc + json) \<times> http_request list" where
  "lifestyle_shot_by_text env net a =
     (let key = py_or (lifestyle_text_args.api_key a) (env ''BRIA_API_KEY'')
      in if \<not> truthy_opt key then (Inl MissingCredential, [])
         else
           case b64encode (lifestyle_text_args.image_data a) of
             Inl e \<Rightarrow> (Inl e, [])
           | Inr image_base64 \<Rightarrow>
               let data = [(''file'', JStr image_base64),
                           (''scene_description'', JStr (scene_description a)),
                           (''placement_type'', JStr (lifestyle_text_args.placement_type a)),
                           (''num_results'', JInt (lifestyle_text_args.num_results a)),
                           (''sync'', JBool (lifestyle_text_args.sync a)),
                           (''fast'', JBool (fast a)),
                           (''optimize_description'', JBool (optimize_description a)),
                           (''original_quality'', JBool (lifestyle_text_args.original_quality a)),
                           (''force_rmbg'', JBool (lifestyle_text_args.force_rmbg a)),
                           (''content_moderation'', JBool (lifestyle_text_args.content_moderation a))];
                   data1 = (if truthy_opt (exclude_elements a) \<and> \<not> fast a
                            then dict_set ''exclude_elements'' (JStr (the (exclude_elements a))) data
                            else data);
                   data2 = placement_fields (lifestyle_text_args.placement_type a)
                             (lifestyle_text_args.shot_size a)
                             (lifestyle_text_args.manual_placement_selection a)
                             (lifestyle_text_args.padding_values a)
                             (lifestyle_text_args.foreground_image_size a)
                             (lifestyle_text_args.foreground_image_location a)
                             (lifestyle_text_args.sku a) data1;
                   req = \<lparr> post_url = BRIA_TEXT_LIFESTYLE_URL, post_headers = bria_headers (the key),
                           post_json = data2, post_timeout = 15 \<rparr>
               in (bria_post ''Lifestyle shot generation failed due to timeout.''
                     ''Lifestyle shot generation failed: '' net req, [req]))"

text \<open>\<^verbatim>\<open>ref_image_influence\<close> is a float that the builder only forwards.\<close>

record lifestyle_image_args =
  api_key :: "string option"
  image_data :: "byte list option"
  reference_image :: "byte list option"
  placement_type :: string
  num_results :: int
  sync :: bool
  original_quality :: bool
  shot_size :: "int list"
  manual_placement_selection :: "string list"
  padding_values :: "int list"
  foreground_image_size :: "int list option"
  foreground_image_location :: "int list option"
  force_rmbg :: bool
  content_moderation :: bool
  sku :: "string option"
  enhance_ref_image :: bool
  ref_image_influence :: real

definition lifestyle_shot_by_image_defaults :: lifestyle_image_args where
  "lifestyle_shot_by_image_defaults =
     \<lparr> api_key = None, image_data = None, reference_image = None,
       placement_type = ''original'', num_results = 4, sync = False,
       original_quality = False, shot_size = [1000, 1000],
       manual_placement_selection = [''upper_left''], padding_values = [0, 0, 0, 0],
       foreground_image_size = None, foreground_image_location = None,
       force_rmbg = False, content_moderation = False, sku = None,
       enhance_ref_image = True, ref_image_influence = 1 \<rparr>"

definition lifestyle_shot_by_image ::
  "environ \<Rightarrow> network \<Rightarrow> lifestyle_image_args \<Rightarrow> (pyexc + json) \<times> http_request list" where
  "lifestyle_shot_by_image env net a =
     (let key = py_or (lifestyle_image_args.api_key a) (env ''BRIA_API_KEY'')
      in if \<not> truthy_opt key then (Inl MissingCredential, [])
         else
           case b64encode (lifestyle_image_args.image_data a) of
             Inl e \<Rightarrow> (Inl e, [])
           | Inr image_base64 \<Rightarrow>
              (case b64encode (reference_image a) of
                 Inl e \<Rightarrow> (Inl e, [])
               | Inr reference_base64 \<Rightarrow>
                   let data = [(''file'', JStr image_base64),
                               (''ref_image_file'', JStr reference_base64),
                               (''placement_type'', JStr (lifestyle_image_args.placement_type a)),
                               (''num_results'', JInt (lifestyle_image_args.num_results a)),
                               (''sync'', JBool (lifestyle_image_args.sync a)),
                               (''original_quality'', JBool (lifestyle_image_args.original_quality a)),
                               (''force_rmbg'', JBool (lifestyle_image_args.force_rmbg a)),
                               (''content_moderation'', JBool (lifestyle_image_args.content_moderation a)),
                               (''enhance_ref_image'', JBool (enhance_ref_image a)),
                               (''ref_image_influence'', JFloat (ref_image_influence a))];
                       data1 = placement_fields (lifestyle_image_args.placement_type a)
                                 (lifestyle_image_args.shot_size a)
                                 (lifestyle_image_args.manual_placement_selection a)
                                 (lifestyle_image_args.padding_values a)
                                 (lifestyle_image_args.foreground_image_size a)
                                 (lifestyle_image_args.foreground_image_location a)
                                 (lifestyle_image_args.sku a) data;
                       req = \<lparr> post_url = BRIA_IMAGE_LIFESTYLE_URL, post_headers = bria_headers (the key),
                               post_json = data1, post_timeout = 15 \<rparr>
                   in (bria_post ''Lifestyle shot generation failed due to timeout.''
                         ''Lifestyle shot generation failed: '' net req, [req])))"

section \<open>services/prompt_enhancement.py\<close>

text \<open>
  The module-level client is built once, when the module is imported, by
  \<^verbatim>\<open>OpenAI(base_url=..., api_key=os.getenv("OPENROUTER_API_KEY"))\<close>. The constructor of
  the openai library stores a key that is given, the empty string included. Given
  \<^verbatim>\<open>None\<close> it reads \<^verbatim>\<open>OPENAI_API_KEY\<close> from the environment instead, and when that is
  unset too it raises \<^verbatim>\<open>OpenAIError\<close>: the import fails and \<^verbatim>\<open>enhance_prompt\<close> is never
  reached. Of the client only the stored key is read.
  \<^verbatim>\<open>client.chat.completions.create\<close> either raises or returns a completion, of which
  the function reads \<^verbatim>\<open>choices[i].message.content\<close> (a string, or \<^verbatim>\<open>None\<close>).
\<close>

record openai_client =
  client_api_key :: "string option"


record chat_request =
  extra_headers :: "(string \<times> string) list"
  chat_model :: string
  messages :: "(string \<times> string) list"

datatype chat_outcome =
    Chat_Raised pyexc
  | Chat_Completion "string option list"

type_synonym chat_api = "chat_request \<Rightarrow> chat_outcome"

record enhance_args =
  prompt :: string
  referer_url :: "string option"
  site_title :: "string option"
  model :: string

text \<open>\<^verbatim>\<open>str.strip()\<close>: the whitespace of Python among the code points below 256.\<close>

definition py_isspace :: "char \<Rightarrow> bool" where
  "py_isspace c \<longleftrightarrow> (of_char c :: nat) \<in> set [9, 10, 11, 12, 13, 28, 29, 30, 31, 32, 133, 160]"

definition py_strip :: "string \<Rightarrow> string" where
  "py_strip s = rev (dropWhile py_isspace (rev (dropWhile py_isspace s)))"

definition system_instruction :: string where
  "system_instruction =
     ''You are an AI that specializes in marketing copywriting.'' @
     ''just enhance product descriptions to make them ideal for high-conversion advertisements. '' @
     ''Focus on emotions, benefits, and a premium feel. Keep it concise but impactful.''"

text \<open>The headers and messages handed to \<^verbatim>\<open>client.chat.completions.create\<close>.\<close>

definition enhance_request :: "enhance_args \<Rightarrow> chat_request" where
  "enhance_request a =
     (let h1 = (if truthy_opt (referer_url a) then [(''HTTP-Referer'', the (referer_url a))]
                else []);
          h2 = (if truthy_opt (site_title a)
                then AList.update ''X-Title'' (the (site_title a)) h1 else h1)
      in \<lparr> extra_headers = h2, chat_model = model a,
           messages = [(''system'', system_instruction),
                       (''user'', ''Enhance this product description: '' @
                                    enhance_args.prompt a)] \<rparr>)"

text \<open>The body of the \<^verbatim>\<open>try\<close> block.\<close>

definition enhance_prompt_body ::
  "openai_client \<Rightarrow> chat_api \<Rightarrow> enhance_args \<Rightarrow> (pyexc + string) \<times> chat_request list" where
  "enhance_prompt_body cl chat a =
     (if \<not> truthy_opt (client_api_key cl) then (Inr (enhance_args.prompt a), [])
      else
        let req = enhance_request a
        in (case chat req of
              Chat_Raised e \<Rightarrow> Inl e
            | Chat_Completion choices \<Rightarrow>
               (case choices of
                  [] \<Rightarrow> Inl IndexError
                | c # _ \<Rightarrow>
                   (case c of
                      None \<Rightarrow> Inl AttributeError
                    | Some content \<Rightarrow>
                        let enhanced_prompt = py_strip content
                        in if enhanced_prompt \<noteq> [] then Inr enhanced_prompt
                           else Inr (enhance_args.prompt a))),
            [req]))"

text \<open>\<^verbatim>\<open>except Exception as e: return prompt\<close>.\<close>

definition enhance_prompt ::
  "openai_client \<Rightarrow> chat_api \<Rightarrow> enhance_args \<Rightarrow> (pyexc + string) \<times> chat_request list" where
  "enhance_prompt cl chat a =
     (case enhance_prompt_body cl chat a of
        (Inl e, calls) \<Rightarrow> (Inr (enhance_args.prompt a), calls)
      | (Inr s, calls) \<Rightarrow> (Inr s, calls))"

section \<open>app.py: the poller\<close>

text \<open>
  The slots of \<^verbatim>\<open>st.session_state\<close> that the result handling reads and writes.
  \<^verbatim>\<open>None\<close> is \<open>JNull\<close>. The outside world of the poller is \<^verbatim>\<open>requests.head\<close>, which
  raises or returns a response with a status code and may answer differently each
  time it is asked: it is a function of the number of HEAD requests sent before and of
  the URL. The log keeps the URLs of the HEAD requests sent, in order, and the seconds
  spent in \<^verbatim>\<open>time.sleep\<close>.
\<close>

record session_state =
  pending_urls :: "json list"
  edited_image :: json
  generated_images :: json

record io_log =
  head_requests :: "json list"
  slept :: nat

type_synonym head_api = "nat \<Rightarrow> json \<Rightarrow> pyexc + int"

text \<open>\<^verbatim>\<open>try: body  except Exception as e: handler\<close>.\<close>

definition try_except :: "pyexc + 'a \<Rightarrow> (pyexc \<Rightarrow> pyexc + 'a) \<Rightarrow> pyexc + 'a" where
  "try_except body handler = (case body of Inl e \<Rightarrow> handler e | Inr v \<Rightarrow> Inr v)"

text \<open>The \<^verbatim>\<open>for url in st.session_state.pending_urls\<close> loop of one sweep.\<close>

fun check_urls ::
  "head_api \<Rightarrow> json list \<Rightarrow> json list \<times> json list \<times> io_log \<Rightarrow>
   pyexc + (json list \<times> json list \<times> io_log)" where
  "check_urls head [] acc = Inr acc"
| "check_urls head (url # rest) (ready_images, still_pending, lg) =
     (case try_except
             (case head (length (head_requests lg)) url of
                Inl e \<Rightarrow> Inl e
              | Inr status_code \<Rightarrow>
                  if status_code = 200 then Inr (ready_images @ [url], still_pending)
                  else Inr (ready_images, still_pending @ [url]))
             (\<lambda>e. Inr (ready_images, still_pending @ [url])) of
        Inl e \<Rightarrow> Inl e
      | Inr (ready_images', still_pending') \<Rightarrow>
          check_urls head rest
            (ready_images', still_pending', lg\<lparr>head_requests := head_requests lg @ [url]\<rparr>))"

definition check_generated_images ::
  "head_api \<Rightarrow> session_state \<times> io_log \<Rightarrow> pyexc + (bool \<times> session_state \<times> io_log)" where
  "check_generated_images head s =
     (case s of (st, lg) \<Rightarrow>
        if pending_urls st \<noteq> [] then
          (case check_urls head (pending_urls st) ([], [], lg) of
             Inl e \<Rightarrow> Inl e
           | Inr (ready_images, still_pending, lg') \<Rightarrow>
               let st1 = st\<lparr>pending_urls := still_pending\<rparr>
               in (case ready_images of
                     [] \<Rightarrow> Inr (False, st1, lg')
                   | first # _ \<Rightarrow>
                       let st2 = st1\<lparr>edited_image := first\<rparr>;
                           st3 = (if length ready_images > 1
                                  then st2\<lparr>generated_images := JArr ready_images\<rparr> else st2)
                       in Inr (True, st3, lg')))
        else Inr (False, st, lg))"

definition max_attempts :: nat where
  "max_attempts = 3"

text \<open>The \<^verbatim>\<open>while\<close> loop of \<^verbatim>\<open>auto_check_images\<close>, entered with \<^verbatim>\<open>attempt = 0\<close>.\<close>

function auto_check_loop ::
  "head_api \<Rightarrow> nat \<Rightarrow> session_state \<times> io_log \<Rightarrow> pyexc + (bool \<times> session_state \<times> io_log)" where
  "auto_check_loop head attempt (st, lg) =
     (if attempt < max_attempts \<and> pending_urls st \<noteq> [] then
        (case check_generated_images head (st, lg\<lparr>slept := slept lg + 2\<rparr>) of
           Inl e \<Rightarrow> Inl e
         | Inr (ready, st', lg') \<Rightarrow>
             if ready then Inr (True, st', lg')
             else auto_check_loop head (attempt + 1) (st', lg'))
      else Inr (False, st, lg))"
  by pat_completeness auto
termination
  by (relation "measure (\<lambda>(head, attempt, s). max_attempts - attempt)") auto

definition auto_check_images ::
  "head_api \<Rightarrow> session_state \<times> io_log \<Rightarrow> pyexc + (bool \<times> session_state \<times> io_log)" where
  "auto_check_images head s = auto_check_loop head 0 s"

section \<open>app.py: reading the response in sync mode\<close>

text \<open>\<^verbatim>\<open>x[0]\<close>, \<^verbatim>\<open>len(x)\<close>, \<^verbatim>\<open>"k" in x\<close> and \<^verbatim>\<open>x["k"]\<close> on a decoded JSON value.\<close>

fun py_index0 :: "json \<Rightarrow> pyexc + json" where
  "py_index0 (JArr []) = Inl IndexError"
| "py_index0 (JArr (x # xs)) = Inr x"
| "py_index0 (JStr []) = Inl IndexError"
| "py_index0 (JStr (c # cs)) = Inr (JStr [c])"
| "py_index0 (JObj kvs) = Inl KeyError"
| "py_index0 _ = Inl TypeError"

fun py_len :: "json \<Rightarrow> pyexc + nat" where
  "py_len (JArr xs) = Inr (length xs)"
| "py_len (JStr s) = Inr (length s)"
| "py_len (JObj kvs) = Inr (length kvs)"
| "py_len _ = Inl TypeError"

fun py_substring :: "string \<Rightarrow> string \<Rightarrow> bool" where
  "py_substring k [] = (k = [])"
| "py_substring k (c # s) = (take (length k) (c # s) = k \<or> py_substring k s)"

fun py_contains :: "string \<Rightarrow> json \<Rightarrow> pyexc + bool" where
  "py_contains k (JObj kvs) = Inr (k \<in> dict_keys kvs)"
| "py_contains k (JArr xs) = Inr (JStr k \<in> set xs)"
| "py_contains k (JStr s) = Inr (py_substring k s)"
| "py_contains k _ = Inl TypeError"

fun py_getitem :: "json \<Rightarrow> string \<Rightarrow> pyexc + json" where
  "py_getitem (JObj kvs) k = (case dict_get kvs k of None \<Rightarrow> Inl KeyError | Some v \<Rightarrow> Inr v)"
| "py_getitem _ k = Inl TypeError"

text \<open>
  Rule 3, the \<^verbatim>\<open>for item in result["result"]\<close> loop: the first item that is a dict
  with \<^verbatim>\<open>urls\<close>, or a non-empty list, gives the image, and the loop stops.
\<close>

fun scan_result :: "json list \<Rightarrow> session_state \<Rightarrow> pyexc + session_state" where
  "scan_result [] st = Inr st"
| "scan_result (item # items) st =
     (case item of
        JObj kvs \<Rightarrow>
          (case dict_get kvs ''urls'' of
             Some u \<Rightarrow> (case py_index0 u of
                          Inl e \<Rightarrow> Inl e
                        | Inr v \<Rightarrow> Inr (st\<lparr>edited_image := v\<rparr>))
           | None \<Rightarrow> scan_result items st)
      | JArr xs \<Rightarrow>
          (case xs of
             [] \<Rightarrow> scan_result items st
           | x # _ \<Rightarrow> Inr (st\<lparr>edited_image := x\<rparr>))
      | _ \<Rightarrow> scan_result items st)"

text \<open>
  The lifestyle tab, \<^verbatim>\<open>if result: ... if sync_mode:\<close>. The code after
  \<^verbatim>\<open>lifestyle_shot_by_text\<close> and the code after \<^verbatim>\<open>lifestyle_shot_by_image\<close> are the same
  text. An exception leaves the handler for the \<^verbatim>\<open>except\<close> clause of the tab, which
  reports it; the messages on the page are not modelled.
\<close>

definition lifestyle_sync_result :: "json \<Rightarrow> session_state \<Rightarrow> pyexc + session_state" where
  "lifestyle_sync_result result st =
     (if \<not> truthy result then Inr st
      else case result of
        JObj kvs \<Rightarrow>
          (case dict_get kvs ''result_url'' of
             Some v \<Rightarrow> Inr (st\<lparr>edited_image := v\<rparr>)
           | None \<Rightarrow>
              (case dict_get kvs ''result_urls'' of
                 Some v \<Rightarrow> (case py_index0 v of
                              Inl e \<Rightarrow> Inl e
                            | Inr x \<Rightarrow> Inr (st\<lparr>edited_image := x\<rparr>))
               | None \<Rightarrow>
                  (case dict_get kvs ''result'' of
                     Some (JArr items) \<Rightarrow> scan_result items st
                   | _ \<Rightarrow>
                      (case dict_get kvs ''urls'' of
                         Some v \<Rightarrow> (case py_index0 v of
                                      Inl e \<Rightarrow> Inl e
                                    | Inr x \<Rightarrow> Inr (st\<lparr>edited_image := x\<rparr>))
                       | None \<Rightarrow> Inr st))))
      | _ \<Rightarrow> Inr st)"

text \<open>The image-generation tab, which always asks for \<^verbatim>\<open>sync=True\<close>: rules 1 to 3 only.\<close>

definition hd_sync_result :: "json \<Rightarrow> session_state \<Rightarrow> pyexc + session_state" where
  "hd_sync_result result st =
     (if \<not> truthy result then Inr st
      else case result of
        JObj kvs \<Rightarrow>
          (case dict_get kvs ''result_url'' of
             Some v \<Rightarrow> Inr (st\<lparr>edited_image := v\<rparr>)
           | None \<Rightarrow>
              (case dict_get kvs ''result_urls'' of
                 Some v \<Rightarrow> (case py_index0 v of
                              Inl e \<Rightarrow> Inl e
                            | Inr x \<Rightarrow> Inr (st\<lparr>edited_image := x\<rparr>))
               | None \<Rightarrow>
                  (case dict_get kvs ''result'' of
                     Some (JArr items) \<Rightarrow> scan_result items st
                   | _ \<Rightarrow> Inr st)))
      | _ \<Rightarrow> Inr st)"

text \<open>
  The generative-fill tab, \<^verbatim>\<open>if result: ... if sync_mode:\<close>. There is no
  \<^verbatim>\<open>isinstance\<close> test here, and \<^verbatim>\<open>urls\<close> is looked at before \<^verbatim>\<open>result_url\<close>.
\<close>

definition gen_fill_sync_result :: "json \<Rightarrow> session_state \<Rightarrow> pyexc + session_state" where
  "gen_fill_sync_result result st =
     (if \<not> truthy result then Inr st
      else
        case (case py_contains ''urls'' result of
                Inl e \<Rightarrow> Inl e
              | Inr False \<Rightarrow> Inr False
              | Inr True \<Rightarrow> (case py_getitem result ''urls'' of
                              Inl e \<Rightarrow> Inl e
                            | Inr u \<Rightarrow> Inr (truthy u))) of
          Inl e \<Rightarrow> Inl e
        | Inr True \<Rightarrow>
            (case py_getitem result ''urls'' of
               Inl e \<Rightarrow> Inl e
             | Inr u \<Rightarrow>
                (case py_index0 u of
                   Inl e \<Rightarrow> Inl e
                 | Inr first \<Rightarrow>
                    (case py_len u of
                       Inl e \<Rightarrow> Inl e
                     | Inr n \<Rightarrow>
                         let st1 = st\<lparr>edited_image := first\<rparr>
                         in Inr (if n > 1 then st1\<lparr>generated_images := u\<rparr> else st1))))
        | Inr False \<Rightarrow>
            (case py_contains ''result_url'' result of
               Inl e \<Rightarrow> Inl e
             | Inr False \<Rightarrow> Inr st
             | Inr True \<Rightarrow> (case py_getitem result ''result_url'' of
                             Inl e \<Rightarrow> Inl e
                           | Inr v \<Rightarrow> Inr (st\<lparr>edited_image := v\<rparr>))))"

text \<open>The places of \<^verbatim>\<open>app.py\<close> that read a response in sync mode.\<close>

datatype call_site = Generate_Image | Lifestyle_Text | Lifestyle_Image | Generative_Fill

fun sync_result :: "call_site \<Rightarrow> json \<Rightarrow> session_state \<Rightarrow> pyexc + session_state" where
  "sync_result Generate_Image result st = hd_sync_result result st"
| "sync_result Lifestyle_Text result st = lifestyle_sync_result result st"
| "sync_result Lifestyle_Image result st = lifestyle_sync_result result st"
| "sync_result Generative_Fill result st = gen_fill_sync_result result st"

section \<open>Worlds for the examples\<close>

text \<open>
  A remote end that answers every POST with a result URL, a chat model that answers
  every request with the same padded sentence, and the session state that
  \<^verbatim>\<open>initialize_session_state\<close> sets up. The empty environment is \<open>Map.empty\<close>.
\<close>

definition example_net :: network where
  "example_net req = Returned (JObj [(''result_url'', JStr ''https://cdn.example/out.png'')])"

definition example_chat :: chat_api where
  "example_chat req = Chat_Completion [Some ''  A watch that owns the room. '']"

definition initial_session_state :: session_state where
  "initial_session_state =
     \<lparr> pending_urls = [], edited_image = JNull, generated_images = JArr [] \<rparr>"

text \<open>
  A world for the poller: the second URL answers 200 from the fifth HEAD request of the
  session on, the third URL refuses every connection, all else answers 404.
\<close>

definition second_sweep_head :: head_api where
  "second_sweep_head n u =
     (if u = JStr ''https://cdn.example/2.png'' \<and> 4 \<le> n then Inr 200
      else if u = JStr ''https://cdn.example/3.png'' then Inl (Exception ''connection reset'')
      else Inr 404)"

section \<open>What a sweep should find\<close>

text \<open>
  The HEAD request number \<open>n\<close>, sent to a URL, is answered with status 200. A sweep
  that starts after \<open>c\<close> requests asks for the pending URLs in order, so the URL at
  position \<open>i\<close> gets request number \<open>c + i\<close>; \<open>sweep_ready\<close> are the URLs answered
  with 200 and \<open>sweep_pending\<close> all the others, both in the order of the list.
\<close>

definition head_ready :: "head_api \<Rightarrow> nat \<times> json \<Rightarrow> bool" where
  "head_ready head p = (head (fst p) (snd p) = Inr 200)"

definition sweep_ready :: "head_api \<Rightarrow> nat \<Rightarrow> json list \<Rightarrow> json list" where
  "sweep_ready head c urls = map snd (filter (head_ready head) (enumerate c urls))"

definition sweep_pending :: "head_api \<Rightarrow> nat \<Rightarrow> json list \<Rightarrow> json list" where
  "sweep_pending head c urls = map snd (filter (\<lambda>p. \<not> head_ready head p) (enumerate c urls))"

section \<open>Dictionaries and base64\<close>

lemma dict_get_set: "dict_get (dict_set k v d) k' = (if k' = k then Some v else dict_get d k')"
  by (simp add: dict_get_def dict_set_def update_conv')

lemma dict_keys_set: "dict_keys (dict_set k v d) = insert k (dict_keys d)"
  by (simp add: dict_keys_def dict_set_def dom_update)

lemma dict_keys_Cons: "dict_keys ((k, v) # d) = insert k (dict_keys d)"
  by (simp add: dict_keys_def)

lemma dict_keys_Nil: "dict_keys [] = {}"
  by (simp add: dict_keys_def)

lemma dict_get_Cons: "dict_get ((k, v) # d) k' = (if k' = k then Some v else dict_get d k')"
  by (auto simp add: dict_get_def)

lemma dict_get_Nil: "dict_get [] k = None"
  by (simp add: dict_get_def)

lemma shadow_optional_height:
  "dict_get (shadow_optional a d) ''shadow_height'' =
     (case shadow_args.shadow_height a of None \<Rightarrow> dict_get d ''shadow_height'' | Some v \<Rightarrow> Some (JInt v))"
  by (simp add: shadow_optional_def Let_def dict_get_set split: option.splits)

lemma shadow_optional_width:
  "dict_get (shadow_optional a d) ''shadow_width'' =
     (case shadow_args.shadow_width a of None \<Rightarrow> dict_get d ''shadow_width'' | Some v \<Rightarrow> Some (JInt v))"
  by (simp add: shadow_optional_def Let_def dict_get_set split: option.splits)

lemma shadow_optional_keys:
  "dict_keys (shadow_optional a d) =
     dict_keys d
     \<union> (if truthy_opt (shadow_args.background_color a) then {''background_color''} else {})
     \<union> (if shadow_args.shadow_blur a = None then {} else {''shadow_blur''})
     \<union> (if shadow_args.shadow_width a = None then {} else {''shadow_width''})
     \<union> (if shadow_args.shadow_height a = None then {} else {''shadow_height''})
     \<union> (if truthy_opt (shadow_args.sku a) then {''sku''} else {})"
  by (auto simp add: shadow_optional_def Let_def dict_keys_set split: option.splits)

lemma b64encode_Some: "b64encode (Some bs) = Inr (b64_groups bs)"
  by (simp add: b64encode_def)

lemma b64encode_None: "b64encode None = Inl TypeError"
  by (simp add: b64encode_def)

section \<open>The shadow builder\<close>

text \<open>
  Once a key and an image source are there, \<^verbatim>\<open>add_shadow\<close> sends exactly one request,
  and \<^verbatim>\<open>shadow_width\<close> and \<^verbatim>\<open>shadow_height\<close> are in its payload, with the value of the
  argument, exactly when the argument is not \<^verbatim>\<open>None\<close>. The shadow type plays no part.
\<close>

lemma add_shadow_sends:
  assumes "truthy_opt (py_or (shadow_args.api_key a) (env ''BRIA_API_KEY''))"
      and "truthy_opt (shadow_args.image_url a) \<or> truthy_opt (shadow_args.image_data a)"
  shows "\<exists>req. snd (add_shadow env net a) = [req] \<and>
           dict_get (post_json req) ''shadow_height'' =
             map_option JInt (shadow_args.shadow_height a) \<and>
           (''shadow_height'' \<in> dict_keys (post_json req) \<longleftrightarrow> shadow_args.shadow_height a \<noteq> None) \<and>
           dict_get (post_json req) ''shadow_width'' =
             map_option JInt (shadow_args.shadow_width a) \<and>
           (''shadow_width'' \<in> dict_keys (post_json req) \<longleftrightarrow> shadow_args.shadow_width a \<noteq> None)"
proof (cases "truthy_opt (shadow_args.image_url a)")
  case True
  with assms(1) show ?thesis
    by (simp add: add_shadow_def Let_def shadow_optional_height shadow_optional_width
          shadow_optional_keys dict_get_set dict_get_Cons dict_get_Nil dict_keys_set
          dict_keys_Cons dict_keys_Nil split: option.splits)
next
  case False
  with assms(2) obtain bs where "shadow_args.image_data a = Some bs" "bs \<noteq> []"
    by (cases "shadow_args.image_data a") auto
  with False assms(1) show ?thesis
    by (simp add: add_shadow_def Let_def b64encode_Some shadow_optional_height
          shadow_optional_width shadow_optional_keys dict_get_set dict_get_Cons dict_get_Nil
          dict_keys_set dict_keys_Cons dict_keys_Nil split: option.splits)
qed

text \<open>
  Claim C1, as the code has it. A call of \<^verbatim>\<open>add_shadow\<close> with a credential and an image
  source sends one request. When the caller passes no \<^verbatim>\<open>shadow_height\<close>, the argument is
  the default 70 and the payload holds \<^verbatim>\<open>shadow_height = 70\<close>, for \<^verbatim>\<open>float\<close>, for
  \<^verbatim>\<open>regular\<close> and for any other shadow type. In general the payload holds
  \<^verbatim>\<open>shadow_height\<close> with the value of the argument whenever the argument is not \<^verbatim>\<open>None\<close>,
  and the key is left out only when the caller passes \<^verbatim>\<open>None\<close>. The same holds of
  \<^verbatim>\<open>shadow_width\<close>, whose default is \<^verbatim>\<open>None\<close>: when the caller passes no
  \<^verbatim>\<open>shadow_width\<close>, the payload has no \<^verbatim>\<open>shadow_width\<close> key.
\<close>

theorem add_shadow_height_default:
  assumes "truthy_opt (py_or (shadow_args.api_key a) (env ''BRIA_API_KEY''))"
      and "truthy_opt (shadow_args.image_url a) \<or> truthy_opt (shadow_args.image_data a)"
  shows "\<exists>req. snd (add_shadow env net a) = [req] \<and>
           (shadow_args.shadow_height a = shadow_args.shadow_height add_shadow_defaults \<longrightarrow>
              dict_get (post_json req) ''shadow_height'' = Some (JInt 70)) \<and>
           (shadow_args.shadow_height a = None \<longrightarrow>
              ''shadow_height'' \<notin> dict_keys (post_json req)) \<and>
           (shadow_args.shadow_width a = shadow_args.shadow_width add_shadow_defaults \<longrightarrow>
              ''shadow_width'' \<notin> dict_keys (post_json req)) \<and>
           (\<forall>h. shadow_args.shadow_height a = Some h \<longrightarrow>
              dict_get (post_json req) ''shadow_height'' = Some (JInt h)) \<and>
           (''shadow_height'' \<in> dict_keys (post_json req) \<longleftrightarrow>
              shadow_args.shadow_height a \<noteq> None) \<and>
           (\<forall>w. shadow_args.shadow_width a = Some w \<longrightarrow>
              dict_get (post_json req) ''shadow_width'' = Some (JInt w)) \<and>
           (''shadow_width'' \<in> dict_keys (post_json req) \<longleftrightarrow>
              shadow_args.shadow_width a \<noteq> None)"
proof -
  from add_shadow_sends [of a env net, OF assms] obtain req where
    r: "snd (add_shadow env net a) = [req] \<and>
        dict_get (post_json req) ''shadow_height'' = map_option JInt (shadow_args.shadow_height a) \<and>
        (''shadow_height'' \<in> dict_keys (post_json req) \<longleftrightarrow> shadow_args.shadow_height a \<noteq> None) \<and>
        dict_get (post_json req) ''shadow_width'' = map_option JInt (shadow_args.shadow_width a) \<and>
        (''shadow_width'' \<in> dict_keys (post_json req) \<longleftrightarrow> shadow_args.shadow_width a \<noteq> None)" ..
  show ?thesis
  proof (intro exI [of _ req] conjI impI allI)
    show "snd (add_shadow env net a) = [req]" using r by simp
  next
    assume "shadow_args.shadow_height a = shadow_args.shadow_height add_shadow_defaults"
    then show "dict_get (post_json req) ''shadow_height'' = Some (JInt 70)"
      using r by (simp add: add_shadow_defaults_def)
  next
    assume "shadow_args.shadow_height a = None"
    then show "''shadow_height'' \<notin> dict_keys (post_json req)" using r by simp
  next
    assume "shadow_args.shadow_width a = shadow_args.shadow_width add_shadow_defaults"
    then show "''shadow_width'' \<notin> dict_keys (post_json req)"
      using r by (simp add: add_shadow_defaults_def)
  next
    fix h assume "shadow_args.shadow_height a = Some h"
    then show "dict_get (post_json req) ''shadow_height'' = Some (JInt h)"
      using r by simp
  next
    show "''shadow_height'' \<in> dict_keys (post_json req) \<longleftrightarrow> shadow_args.shadow_height a \<noteq> None"
      using r by simp
  next
    fix w assume "shadow_args.shadow_width a = Some w"
    then show "dict_get (post_json req) ''shadow_width'' = Some (JInt w)"
      using r by simp
  next
    show "''shadow_width'' \<in> dict_keys (post_json req) \<longleftrightarrow> shadow_args.shadow_width a \<noteq> None"
      using r by simp
  qed
qed

text \<open>
  Claim C1 fails as stated for the regular shadow: called with \<^verbatim>\<open>shadow_type\<close> left at
  \<^verbatim>\<open>"regular"\<close> and neither \<^verbatim>\<open>shadow_width\<close> nor \<^verbatim>\<open>shadow_height\<close> passed, the payload
  that goes out ends with \<^verbatim>\<open>shadow_height = 70\<close>.
\<close>

theorem add_shadow_regular_counterexample:
  "map post_json (snd (add_shadow Map.empty example_net
      (add_shadow_defaults\<lparr>shadow_args.api_key := Some ''key'',
                           shadow_args.image_url := Some ''https://cdn.example/in.png''\<rparr>))) =
   [[(''shadow_type'', JStr ''regular''), (''shadow_color'', JStr ''#000000''),
     (''shadow_intensity'', JInt 60), (''force_rmbg'', JBool False),
     (''content_moderation'', JBool False), (''shadow_offset'', JArr [JInt 0, JInt 15]),
     (''image_url'', JStr ''https://cdn.example/in.png''), (''shadow_height'', JInt 70)]]"
  by (simp add: add_shadow_def add_shadow_defaults_def py_or_def Let_def shadow_optional_def
        dict_set_def)

text \<open>
  The float shadow with three bytes of image data and the defaults otherwise, and the
  same call with \<^verbatim>\<open>shadow_height=50\<close> and \<^verbatim>\<open>shadow_width=10\<close>.
\<close>

theorem add_shadow_height_default_witness:
  "(\<exists>req. snd (add_shadow Map.empty example_net
             (add_shadow_defaults\<lparr>shadow_args.api_key := Some ''key'',
                                  shadow_args.image_data := Some [77, 97, 110],
                                  shadow_args.shadow_type := ''float''\<rparr>)) = [req] \<and>
         dict_get (post_json req) ''shadow_height'' = Some (JInt 70) \<and>
         ''shadow_width'' \<notin> dict_keys (post_json req)) \<and>
   (\<exists>req. snd (add_shadow Map.empty example_net
             (add_shadow_defaults\<lparr>shadow_args.api_key := Some ''key'',
                                  shadow_args.image_data := Some [77, 97, 110],
                                  shadow_args.shadow_type := ''float'',
                                  shadow_args.shadow_width := Some 10,
                                  shadow_args.shadow_height := Some 50\<rparr>)) = [req] \<and>
         dict_get (post_json req) ''shadow_height'' = Some (JInt 50) \<and>
         dict_get (post_json req) ''shadow_width'' = Some (JInt 10))"
  using add_shadow_height_default [of "add_shadow_defaults\<lparr>shadow_args.api_key := Some ''key'',
                                  shadow_args.image_data := Some [77, 97, 110],
                                  shadow_args.shadow_type := ''float''\<rparr>" Map.empty example_net]
        add_shadow_height_default [of "add_shadow_defaults\<lparr>shadow_args.api_key := Some ''key'',
                                  shadow_args.image_data := Some [77, 97, 110],
                                  shadow_args.shadow_type := ''float'',
                                  shadow_args.shadow_width := Some 10,
                                  shadow_args.shadow_height := Some 50\<rparr>" Map.empty example_net]
  by (auto simp add: add_shadow_defaults_def py_or_def)

section \<open>Missing image data\<close>

text \<open>
  Claim C6, as the code has it. When a credential resolves and both \<^verbatim>\<open>image_data\<close> and
  \<^verbatim>\<open>image_url\<close> are absent (\<^verbatim>\<open>None\<close> or empty), \<^verbatim>\<open>add_shadow\<close> and \<^verbatim>\<open>erase_foreground\<close>
  raise the invalid-input \<^verbatim>\<open>ValueError\<close> and send nothing.
\<close>

theorem no_image_source_invalid_input:
  assumes "truthy_opt (py_or k (env ''BRIA_API_KEY''))"
      and "\<not> truthy_opt d" and "\<not> truthy_opt u"
  shows "(\<exists>e. add_shadow env net
                (sa\<lparr>shadow_args.api_key := k, shadow_args.image_data := d,
                    shadow_args.image_url := u\<rparr>) = (Inl e, []) \<and> is_InvalidInput e) \<and>
         (\<exists>e. erase_foreground env net
                (ea\<lparr>erase_args.api_key := k, erase_args.image_data := d,
                    erase_args.image_url := u\<rparr>) = (Inl e, []) \<and> is_InvalidInput e)"
  using assms by (simp add: add_shadow_def erase_foreground_def is_InvalidInput_def Let_def)

text \<open>
  Claim C6 fails as stated when no credential resolves either: the key is looked at
  first, and the call fails with the missing-credential error, which is not the
  invalid-input error.
\<close>

theorem no_image_source_no_key_counterexample:
  "add_shadow Map.empty example_net add_shadow_defaults = (Inl MissingCredential, []) \<and>
   erase_foreground Map.empty example_net erase_foreground_defaults = (Inl MissingCredential, []) \<and>
   \<not> is_InvalidInput MissingCredential"
  by (simp add: add_shadow_def erase_foreground_def add_shadow_defaults_def
        erase_foreground_defaults_def py_or_def is_InvalidInput_def MissingCredential_def)

text \<open>Both builders called with a key and nothing else.\<close>

theorem no_image_source_invalid_input_witness:
  "(\<exists>e. add_shadow Map.empty example_net
          (add_shadow_defaults\<lparr>shadow_args.api_key := Some ''key''\<rparr>) = (Inl e, []) \<and>
        is_InvalidInput e) \<and>
   (\<exists>e. erase_foreground Map.empty example_net
          (erase_foreground_defaults\<lparr>erase_args.api_key := Some ''key''\<rparr>) = (Inl e, []) \<and>
        is_InvalidInput e)"
  using no_image_source_invalid_input [of "Some ''key''" Map.empty None None example_net
      add_shadow_defaults erase_foreground_defaults]
  by (simp add: py_or_def add_shadow_defaults_def erase_foreground_defaults_def)

text \<open>
  Claim C10. The packshot, generative-fill and lifestyle builders do not look at their
  binary arguments before encoding them. While a credential resolves, a call with
  \<^verbatim>\<open>image_data = None\<close>, or with \<^verbatim>\<open>mask_data = None\<close> for generative fill, ends in the
  \<^verbatim>\<open>TypeError\<close> of \<^verbatim>\<open>base64.b64encode\<close>, raised outside the \<^verbatim>\<open>try\<close> block of the builder;
  that is not the invalid-input error, and nothing has been sent.
\<close>

theorem none_payload_type_error:
  assumes "truthy_opt (py_or k (env ''BRIA_API_KEY''))"
  shows "create_packshot env net
           (pa\<lparr>packshot_args.api_key := k, packshot_args.image_data := None\<rparr>) = (Inl TypeError, []) \<and>
         generative_fill env net
           (ga\<lparr>gen_fill_args.api_key := k, gen_fill_args.image_data := None\<rparr>) = (Inl TypeError, []) \<and>
         generative_fill env net
           (ga\<lparr>gen_fill_args.api_key := k, gen_fill_args.mask_data := None\<rparr>) = (Inl TypeError, []) \<and>
         lifestyle_shot_by_text env net
           (ta\<lparr>lifestyle_text_args.api_key := k, lifestyle_text_args.image_data := None\<rparr>) =
             (Inl TypeError, []) \<and>
         lifestyle_shot_by_image env net
           (ia\<lparr>lifestyle_image_args.api_key := k, lifestyle_image_args.image_data := None\<rparr>) =
             (Inl TypeError, []) \<and>
         \<not> is_InvalidInput TypeError"
proof (intro conjI)
  show "create_packshot env net
           (pa\<lparr>packshot_args.api_key := k, packshot_args.image_data := None\<rparr>) = (Inl TypeError, [])"
    using assms by (simp add: create_packshot_def b64encode_None)
  show "generative_fill env net
           (ga\<lparr>gen_fill_args.api_key := k, gen_fill_args.image_data := None\<rparr>) = (Inl TypeError, [])"
    using assms by (simp add: generative_fill_def b64encode_None)
  show "generative_fill env net
           (ga\<lparr>gen_fill_args.api_key := k, gen_fill_args.mask_data := None\<rparr>) = (Inl TypeError, [])"
    using assms by (simp add: generative_fill_def b64encode_def split: option.splits)
  show "lifestyle_shot_by_text env net
           (ta\<lparr>lifestyle_text_args.api_key := k, lifestyle_text_args.image_data := None\<rparr>) =
             (Inl TypeError, [])"
    using assms by (simp add: lifestyle_shot_by_text_def b64encode_None)
  show "lifestyle_shot_by_image env net
           (ia\<lparr>lifestyle_image_args.api_key := k, lifestyle_image_args.image_data := None\<rparr>) =
             (Inl TypeError, [])"
    using assms by (simp add: lifestyle_shot_by_image_def b64encode_None)
  show "\<not> is_InvalidInput TypeError"
    by (simp add: is_InvalidInput_def)
qed

text \<open>The four builders called with a key and \<^verbatim>\<open>None\<close> for the image.\<close>

theorem none_payload_type_error_witness:
  "create_packshot Map.empty example_net
     \<lparr> packshot_args.image_data = None, packshot_args.background_color = ''#FFFFFF'',
       packshot_args.sku = None, packshot_args.force_rmbg = False,
       packshot_args.content_moderation = False, packshot_args.api_key = Some ''key'' \<rparr> =
     (Inl TypeError, []) \<and>
   generative_fill Map.empty example_net
     (generative_fill_defaults\<lparr>gen_fill_args.api_key := Some ''key''\<rparr>) = (Inl TypeError, []) \<and>
   generative_fill Map.empty example_net
     (generative_fill_defaults\<lparr>gen_fill_args.api_key := Some ''key'',
        gen_fill_args.image_data := Some [77]\<rparr>) = (Inl TypeError, []) \<and>
   lifestyle_shot_by_text Map.empty example_net
     (lifestyle_shot_by_text_defaults\<lparr>lifestyle_text_args.api_key := Some ''key''\<rparr>) =
     (Inl TypeError, []) \<and>
   lifestyle_shot_by_image Map.empty example_net
     (lifestyle_shot_by_image_defaults\<lparr>lifestyle_image_args.api_key := Some ''key''\<rparr>) =
     (Inl TypeError, [])"
  using none_payload_type_error [of "Some ''key''" Map.empty example_net
      "\<lparr> packshot_args.image_data = None, packshot_args.background_color = ''#FFFFFF'',
         packshot_args.sku = None, packshot_args.force_rmbg = False,
         packshot_args.content_moderation = False, packshot_args.api_key = None \<rparr>"
      "generative_fill_defaults\<lparr>gen_fill_args.image_data := Some [77]\<rparr>"
      lifestyle_shot_by_text_defaults lifestyle_shot_by_image_defaults]
    none_payload_type_error [of "Some ''key''" Map.empty example_net
      "\<lparr> packshot_args.image_data = None, packshot_args.background_color = ''#FFFFFF'',
         packshot_args.sku = None, packshot_args.force_rmbg = False,
         packshot_args.content_moderation = False, packshot_args.api_key = None \<rparr>"
      generative_fill_defaults
      lifestyle_shot_by_text_defaults lifestyle_shot_by_image_defaults]
  by (simp add: py_or_def generative_fill_defaults_def lifestyle_shot_by_text_defaults_def
        lifestyle_shot_by_image_defaults_def)

section \<open>The lifestyle builder\<close>

lemma placement_fields_exclude:
  "''exclude_elements'' \<in> dict_keys (placement_fields pt ss ms pv fs fl sk d) \<longleftrightarrow>
   ''exclude_elements'' \<in> dict_keys d"
  by (simp add: placement_fields_def Let_def dict_keys_set)

lemma lifestyle_text_calls:
  "snd (lifestyle_shot_by_text env net a) = [] \<or>
   (\<exists>req. snd (lifestyle_shot_by_text env net a) = [req] \<and>
      (''exclude_elements'' \<in> dict_keys (post_json req) \<longleftrightarrow>
         truthy_opt (exclude_elements a) \<and> \<not> fast a))"
  by (simp add: lifestyle_shot_by_text_def Let_def placement_fields_exclude dict_keys_set
        dict_keys_Cons dict_keys_Nil split: sum.splits)

lemma lifestyle_text_sends:
  assumes "truthy_opt (py_or (lifestyle_text_args.api_key a) (env ''BRIA_API_KEY''))"
      and "lifestyle_text_args.image_data a \<noteq> None"
  shows "\<exists>req. snd (lifestyle_shot_by_text env net a) = [req]"
  using assms by (auto simp add: lifestyle_shot_by_text_def Let_def b64encode_Some)

text \<open>
  Claim C9. Every request that \<^verbatim>\<open>lifestyle_shot_by_text\<close> sends has the key
  \<^verbatim>\<open>exclude_elements\<close> in its payload exactly when the argument is a non-empty string and
  \<^verbatim>\<open>fast\<close> is false; so with \<^verbatim>\<open>fast\<close> left at its default the argument is dropped. A
  request is sent whenever a credential resolves and image bytes are given.
\<close>

theorem exclude_elements_iff:
  "(\<forall>req \<in> set (snd (lifestyle_shot_by_text env net a)).
      ''exclude_elements'' \<in> dict_keys (post_json req) \<longleftrightarrow>
        truthy_opt (exclude_elements a) \<and> \<not> fast a) \<and>
   (truthy_opt (py_or (lifestyle_text_args.api_key a) (env ''BRIA_API_KEY'')) \<and>
    lifestyle_text_args.image_data a \<noteq> None \<longrightarrow>
      (\<exists>req. snd (lifestyle_shot_by_text env net a) = [req]))"
proof (intro conjI impI)
  show "\<forall>req \<in> set (snd (lifestyle_shot_by_text env net a)).
      ''exclude_elements'' \<in> dict_keys (post_json req) \<longleftrightarrow>
        truthy_opt (exclude_elements a) \<and> \<not> fast a"
    using lifestyle_text_calls [of env net a] by auto
next
  assume "truthy_opt (py_or (lifestyle_text_args.api_key a) (env ''BRIA_API_KEY'')) \<and>
    lifestyle_text_args.image_data a \<noteq> None"
  then show "\<exists>req. snd (lifestyle_shot_by_text env net a) = [req]"
    using lifestyle_text_sends [of a env net] by simp
qed

text \<open>The default fast mode with \<^verbatim>\<open>exclude_elements="people"\<close>: one request, without the key.\<close>

theorem exclude_elements_iff_witness:
  "\<exists>req. snd (lifestyle_shot_by_text Map.empty example_net
        (lifestyle_shot_by_text_defaults\<lparr>lifestyle_text_args.api_key := Some ''key'',
           lifestyle_text_args.image_data := Some [77, 97],
           exclude_elements := Some ''people''\<rparr>)) = [req] \<and>
      ''exclude_elements'' \<notin> dict_keys (post_json req)"
proof -
  let ?a = "lifestyle_shot_by_text_defaults\<lparr>lifestyle_text_args.api_key := Some ''key'',
           lifestyle_text_args.image_data := Some [77, 97],
           exclude_elements := Some ''people''\<rparr>"
  have f: "fast ?a"
    by (simp add: lifestyle_shot_by_text_defaults_def)
  have k: "truthy_opt (py_or (lifestyle_text_args.api_key ?a) (Map.empty ''BRIA_API_KEY'')) \<and>
           lifestyle_text_args.image_data ?a \<noteq> None"
    by (simp add: py_or_def)
  from exclude_elements_iff [of Map.empty example_net ?a] k
  obtain req where r: "snd (lifestyle_shot_by_text Map.empty example_net ?a) = [req]"
    by (elim conjE exE impE) simp_all
  from exclude_elements_iff [of Map.empty example_net ?a] r f
  have "''exclude_elements'' \<notin> dict_keys (post_json req)"
    by simp
  with r show ?thesis
    by (intro exI [of _ req]) simp
qed

section \<open>Prompt enhancement\<close>

lemma enhance_prompt_no_key:
  "\<not> truthy_opt (client_api_key cl) \<Longrightarrow>
     enhance_prompt cl chat a = (Inr (enhance_args.prompt a), [])"
  by (simp add: enhance_prompt_def enhance_prompt_body_def)

lemma enhance_prompt_key:
  assumes "truthy_opt (client_api_key cl)"
  shows "enhance_prompt cl chat a =
           (case chat (enhance_request a) of
              Chat_Raised e \<Rightarrow> Inr (enhance_args.prompt a)
            | Chat_Completion choices \<Rightarrow>
               (case choices of
                  [] \<Rightarrow> Inr (enhance_args.prompt a)
                | c # rest \<Rightarrow>
                   (case c of
                      None \<Rightarrow> Inr (enhance_args.prompt a)
                    | Some content \<Rightarrow>
                        Inr (if py_strip content = [] then enhance_args.prompt a
                             else py_strip content))),
            [enhance_request a])"
proof (cases "chat (enhance_request a)")
  case (Chat_Raised e)
  with assms show ?thesis
    by (simp add: enhance_prompt_def enhance_prompt_body_def Let_def)
next
  case (Chat_Completion choices)
  show ?thesis
  proof (cases choices)
    case Nil
    with Chat_Completion assms show ?thesis
      by (simp add: enhance_prompt_def enhance_prompt_body_def Let_def)
  next
    case (Cons c rest)
    show ?thesis
    proof (cases c)
      case None
      with Cons Chat_Completion assms show ?thesis
        by (simp add: enhance_prompt_def enhance_prompt_body_def Let_def)
    next
      case (Some content)
      with Cons Chat_Completion assms show ?thesis
        by (simp add: enhance_prompt_def enhance_prompt_body_def Let_def)
    qed
  qed
qed

text \<open>
  Claim C7. \<^verbatim>\<open>enhance_prompt\<close> always returns a string and never raises. Without a key
  it returns the prompt and sends nothing. With a key it sends one chat request, and it
  returns the prompt when the client raises, when the completion has no choice, when the
  content of the first choice is \<^verbatim>\<open>None\<close>, and when the content is empty after
  \<^verbatim>\<open>strip()\<close>; otherwise it returns the stripped content.
\<close>

theorem enhance_prompt_never_fails:
  "(\<exists>s. fst (enhance_prompt cl chat a) = Inr s) \<and>
   (\<not> truthy_opt (client_api_key cl) \<longrightarrow>
      enhance_prompt cl chat a = (Inr (enhance_args.prompt a), [])) \<and>
   (truthy_opt (client_api_key cl) \<longrightarrow>
      snd (enhance_prompt cl chat a) = [enhance_request a]) \<and>
   (\<forall>e. chat (enhance_request a) = Chat_Raised e \<longrightarrow>
      fst (enhance_prompt cl chat a) = Inr (enhance_args.prompt a)) \<and>
   (chat (enhance_request a) = Chat_Completion [] \<longrightarrow>
      fst (enhance_prompt cl chat a) = Inr (enhance_args.prompt a)) \<and>
   (\<forall>rest. chat (enhance_request a) = Chat_Completion (None # rest) \<longrightarrow>
      fst (enhance_prompt cl chat a) = Inr (enhance_args.prompt a)) \<and>
   (\<forall>content rest. chat (enhance_request a) = Chat_Completion (Some content # rest) \<longrightarrow>
      py_strip content = [] \<longrightarrow>
      fst (enhance_prompt cl chat a) = Inr (enhance_args.prompt a)) \<and>
   (\<forall>content rest. truthy_opt (client_api_key cl) \<longrightarrow>
      chat (enhance_request a) = Chat_Completion (Some content # rest) \<longrightarrow>
      py_strip content \<noteq> [] \<longrightarrow>
      fst (enhance_prompt cl chat a) = Inr (py_strip content))"
proof (cases "truthy_opt (client_api_key cl)")
  case False
  then show ?thesis
    by (simp add: enhance_prompt_no_key)
next
  case True
  note k = enhance_prompt_key [OF True, of chat a]
  show ?thesis
  proof (intro conjI allI impI)
    show "\<exists>s. fst (enhance_prompt cl chat a) = Inr s"
      by (simp add: k split: chat_outcome.split list.split option.split)
  qed (insert True, simp_all add: k)
qed

text \<open>A key, and a model that answers with a padded sentence.\<close>

theorem enhance_prompt_never_fails_witness:
  "enhance_prompt \<lparr> client_api_key = Some ''sk-or-1'' \<rparr> example_chat
     \<lparr> prompt = ''steel watch'', referer_url = None, site_title = None,
       model = ''mistralai/mistral-nemo:free'' \<rparr> =
   (Inr ''A watch that owns the room.'',
    [enhance_request \<lparr> prompt = ''steel watch'', referer_url = None, site_title = None,
                       model = ''mistralai/mistral-nemo:free'' \<rparr>])"
proof -
  let ?a = "\<lparr> prompt = ''steel watch'', referer_url = None, site_title = None,
              model = ''mistralai/mistral-nemo:free'' \<rparr>"
  let ?cl = "\<lparr> client_api_key = Some ''sk-or-1'' \<rparr>"
  have s: "py_strip ''  A watch that owns the room. '' = ''A watch that owns the room.''"
    by (simp add: py_strip_def py_isspace_def)
  have c: "example_chat (enhance_request ?a) =
             Chat_Completion [Some ''  A watch that owns the room. '']"
    by (simp add: example_chat_def)
  from enhance_prompt_never_fails [of ?cl example_chat ?a]
  have "fst (enhance_prompt ?cl example_chat ?a) = Inr ''A watch that owns the room.''"
    and "snd (enhance_prompt ?cl example_chat ?a) = [enhance_request ?a]"
    using s c by simp_all
  then show ?thesis by (simp add: prod_eq_iff)
qed

section \<open>Credentials\<close>







section \<open>The poller\<close>

text \<open>One sweep computes \<open>sweep_ready\<close> and \<open>sweep_pending\<close>, whatever the HEAD requests do.\<close>

lemma check_urls_spec:
  "check_urls head ps (r, p, lg) =
     Inr (r @ sweep_ready head (length (head_requests lg)) ps,
          p @ sweep_pending head (length (head_requests lg)) ps,
          lg\<lparr>head_requests := head_requests lg @ ps\<rparr>)"
proof (induction ps arbitrary: r p lg)
  case Nil
  then show ?case by (simp add: sweep_ready_def sweep_pending_def)
next
  case (Cons u us)
  show ?case
  proof (cases "head (length (head_requests lg)) u")
    case (Inl e)
    then show ?thesis
      by (simp add: Cons.IH try_except_def head_ready_def sweep_ready_def sweep_pending_def)
  next
    case (Inr status_code)
    then show ?thesis
      by (simp add: Cons.IH try_except_def head_ready_def sweep_ready_def sweep_pending_def)
  qed
qed

lemma check_generated_images_spec:
  "check_generated_images head (st, lg) =
     Inr (sweep_ready head (length (head_requests lg)) (pending_urls st) \<noteq> [],
          st\<lparr>pending_urls := sweep_pending head (length (head_requests lg)) (pending_urls st),
             edited_image :=
               (case sweep_ready head (length (head_requests lg)) (pending_urls st) of
                  [] \<Rightarrow> edited_image st | u # _ \<Rightarrow> u),
             generated_images :=
               (if 1 < length (sweep_ready head (length (head_requests lg)) (pending_urls st))
                then JArr (sweep_ready head (length (head_requests lg)) (pending_urls st))
                else generated_images st)\<rparr>,
          lg\<lparr>head_requests := head_requests lg @ pending_urls st\<rparr>)"
proof (cases "pending_urls st = []")
  case True
  then show ?thesis
    by (simp add: check_generated_images_def sweep_ready_def sweep_pending_def)
next
  case False
  then show ?thesis
    by (cases "sweep_ready head (length (head_requests lg)) (pending_urls st)")
       (simp_all add: check_generated_images_def check_urls_spec Let_def)
qed

lemma sweep_ready_nth:
  assumes "i < length urls" and "head (c + i) (urls ! i) = Inr 200"
  shows "urls ! i \<in> set (sweep_ready head c urls)"
proof -
  have "(c + i, urls ! i) \<in> set (enumerate c urls)"
    using assms(1) by (simp add: in_set_enumerate_eq)
  with assms(2) show ?thesis
    by (force simp add: sweep_ready_def head_ready_def)
qed

lemma sweep_pending_nth:
  assumes "i < length urls" and "head (c + i) (urls ! i) \<noteq> Inr 200"
  shows "urls ! i \<in> set (sweep_pending head c urls)"
proof -
  have "(c + i, urls ! i) \<in> set (enumerate c urls)"
    using assms(1) by (simp add: in_set_enumerate_eq)
  with assms(2) show ?thesis
    by (force simp add: sweep_pending_def head_ready_def)
qed

text \<open>
  Claim C5. For every behaviour of the HEAD requests, exceptions included, a sweep
  returns normally. A pending URL whose HEAD request is answered with status 200 is
  among the ready URLs, and every ready URL is one of these; a pending URL whose HEAD
  request is answered with another status, or raises, is in the pending list afterwards,
  and that list holds nothing else. The first ready URL becomes the displayed image, and
  two or more ready URLs replace the multi-result list.
\<close>

theorem sweep_never_raises:
  "check_generated_images head (st, lg) =
     Inr (sweep_ready head (length (head_requests lg)) (pending_urls st) \<noteq> [],
          st\<lparr>pending_urls := sweep_pending head (length (head_requests lg)) (pending_urls st),
             edited_image :=
               (case sweep_ready head (length (head_requests lg)) (pending_urls st) of
                  [] \<Rightarrow> edited_image st | u # _ \<Rightarrow> u),
             generated_images :=
               (if 1 < length (sweep_ready head (length (head_requests lg)) (pending_urls st))
                then JArr (sweep_ready head (length (head_requests lg)) (pending_urls st))
                else generated_images st)\<rparr>,
          lg\<lparr>head_requests := head_requests lg @ pending_urls st\<rparr>) \<and>
   (\<forall>i < length (pending_urls st).
      head (length (head_requests lg) + i) (pending_urls st ! i) = Inr 200 \<longrightarrow>
      pending_urls st ! i
        \<in> set (sweep_ready head (length (head_requests lg)) (pending_urls st))) \<and>
   (\<forall>i < length (pending_urls st).
      head (length (head_requests lg) + i) (pending_urls st ! i) \<noteq> Inr 200 \<longrightarrow>
      pending_urls st ! i
        \<in> set (sweep_pending head (length (head_requests lg)) (pending_urls st))) \<and>
   (\<forall>u \<in> set (sweep_ready head (length (head_requests lg)) (pending_urls st)).
      \<exists>i < length (pending_urls st).
        pending_urls st ! i = u \<and> head (length (head_requests lg) + i) u = Inr 200) \<and>
   (\<forall>u \<in> set (sweep_pending head (length (head_requests lg)) (pending_urls st)).
      \<exists>i < length (pending_urls st).
        pending_urls st ! i = u \<and> head (length (head_requests lg) + i) u \<noteq> Inr 200)"
proof (intro conjI allI impI ballI)
  fix u
  assume "u \<in> set (sweep_ready head (length (head_requests lg)) (pending_urls st))"
  then obtain n where n: "(n, u) \<in> set (enumerate (length (head_requests lg)) (pending_urls st))"
      "head n u = Inr 200"
    by (auto simp add: sweep_ready_def head_ready_def)
  then have "n - length (head_requests lg) < length (pending_urls st) \<and>
      pending_urls st ! (n - length (head_requests lg)) = u \<and>
      head (length (head_requests lg) + (n - length (head_requests lg))) u = Inr 200"
    by (auto simp add: in_set_enumerate_eq)
  then show "\<exists>i < length (pending_urls st).
        pending_urls st ! i = u \<and> head (length (head_requests lg) + i) u = Inr 200"
    by (intro exI [of _ "n - length (head_requests lg)"]) simp
next
  fix u
  assume "u \<in> set (sweep_pending head (length (head_requests lg)) (pending_urls st))"
  then obtain n where n: "(n, u) \<in> set (enumerate (length (head_requests lg)) (pending_urls st))"
      "head n u \<noteq> Inr 200"
    by (auto simp add: sweep_pending_def head_ready_def)
  then have "n - length (head_requests lg) < length (pending_urls st) \<and>
      pending_urls st ! (n - length (head_requests lg)) = u \<and>
      head (length (head_requests lg) + (n - length (head_requests lg))) u \<noteq> Inr 200"
    by (auto simp add: in_set_enumerate_eq)
  then show "\<exists>i < length (pending_urls st).
        pending_urls st ! i = u \<and> head (length (head_requests lg) + i) u \<noteq> Inr 200"
    by (intro exI [of _ "n - length (head_requests lg)"]) simp
qed (simp_all add: check_generated_images_spec sweep_ready_nth sweep_pending_nth)

text \<open>The second sweep over the three URLs of the example world.\<close>

theorem sweep_never_raises_witness:
  "check_generated_images second_sweep_head
     (initial_session_state
        \<lparr>pending_urls := [JStr ''https://cdn.example/1.png'', JStr ''https://cdn.example/2.png'',
                          JStr ''https://cdn.example/3.png'']\<rparr>,
      \<lparr> head_requests = [JStr ''https://cdn.example/1.png'', JStr ''https://cdn.example/2.png'',
                         JStr ''https://cdn.example/3.png''], slept = 2 \<rparr>) =
   Inr (True,
        \<lparr> pending_urls = [JStr ''https://cdn.example/1.png'', JStr ''https://cdn.example/3.png''],
          edited_image = JStr ''https://cdn.example/2.png'', generated_images = JArr [] \<rparr>,
        \<lparr> head_requests =
            [JStr ''https://cdn.example/1.png'', JStr ''https://cdn.example/2.png'',
             JStr ''https://cdn.example/3.png'', JStr ''https://cdn.example/1.png'',
             JStr ''https://cdn.example/2.png'', JStr ''https://cdn.example/3.png''],
          slept = 2 \<rparr>)"
  using sweep_never_raises [of second_sweep_head
      "initial_session_state
        \<lparr>pending_urls := [JStr ''https://cdn.example/1.png'', JStr ''https://cdn.example/2.png'',
                          JStr ''https://cdn.example/3.png'']\<rparr>"
      "\<lparr> head_requests = [JStr ''https://cdn.example/1.png'', JStr ''https://cdn.example/2.png'',
                         JStr ''https://cdn.example/3.png''], slept = 2 \<rparr>"]
  by (simp add: initial_session_state_def second_sweep_head_def sweep_ready_def
        sweep_pending_def head_ready_def)

text \<open>
  Claim C8. A sweep over an empty pending list sends no HEAD request, leaves the
  pending list, the displayed image and the multi-result list as they are, and reports
  that nothing became ready.
\<close>

theorem empty_sweep_noop:
  "pending_urls st = [] \<Longrightarrow> check_generated_images head (st, lg) = Inr (False, st, lg)"
  by (simp add: check_generated_images_def)

theorem empty_sweep_noop_witness:
  "check_generated_images second_sweep_head
     (initial_session_state, \<lparr> head_requests = [], slept = 0 \<rparr>) =
   Inr (False, initial_session_state, \<lparr> head_requests = [], slept = 0 \<rparr>)"
  using empty_sweep_noop [of initial_session_state second_sweep_head
      "\<lparr> head_requests = [], slept = 0 \<rparr>"]
  by (simp add: initial_session_state_def)

text \<open>The loop of the auto-check wrapper, with the bound written out.\<close>

lemma auto_check_step:
  "auto_check_loop head attempt (st, lg) =
     (if attempt < 3 \<and> pending_urls st \<noteq> [] then
        (case check_generated_images head (st, lg\<lparr>slept := slept lg + 2\<rparr>) of
           Inl e \<Rightarrow> Inl e
         | Inr (ready, st', lg') \<Rightarrow>
             if ready then Inr (True, st', lg')
             else auto_check_loop head (attempt + 1) (st', lg'))
      else Inr (False, st, lg))"
  by (subst auto_check_loop.simps) (simp add: max_attempts_def)

text \<open>
  Claim C4. Three URLs are pending. Every HEAD request for the first and the third is
  not answered with 200; the second is not answered with 200 in the first sweep and is
  answered with 200 in the second. Then the auto-check wrapper returns true with the
  second URL displayed and the first and third pending, after two sweeps: six HEAD
  requests and four seconds of sleep, and no third sweep.
\<close>

theorem auto_check_second_sweep:
  assumes p: "pending_urls st = [url1, url2, url3]"
      and n1: "\<forall>n. head n url1 \<noteq> Inr 200"
      and n3: "\<forall>n. head n url3 \<noteq> Inr 200"
      and s1: "head (length (head_requests lg) + 1) url2 \<noteq> Inr 200"
      and s2: "head (length (head_requests lg) + 4) url2 = Inr 200"
  shows "auto_check_images head (st, lg) =
           Inr (True,
                st\<lparr>pending_urls := [url1, url3], edited_image := url2\<rparr>,
                lg\<lparr>head_requests := head_requests lg @ [url1, url2, url3, url1, url2, url3],
                   slept := slept lg + 4\<rparr>)"
proof -
  let ?c = "length (head_requests lg)"
  let ?lg1 = "lg\<lparr>slept := slept lg + 2\<rparr>"
  let ?lg2 = "lg\<lparr>head_requests := head_requests lg @ [url1, url2, url3], slept := slept lg + 2\<rparr>"
  let ?lg3 = "lg\<lparr>head_requests := head_requests lg @ [url1, url2, url3], slept := slept lg + 4\<rparr>"
  have r1: "sweep_ready head ?c [url1, url2, url3] = []"
    using n1 n3 s1 by (simp add: sweep_ready_def head_ready_def)
  have p1: "sweep_pending head ?c [url1, url2, url3] = [url1, url2, url3]"
    using n1 n3 s1 by (simp add: sweep_pending_def head_ready_def)
  have "Suc (Suc (Suc (Suc ?c))) = ?c + 4"
    by simp
  with s2 have s2': "head (Suc (Suc (Suc (Suc ?c)))) url2 = Inr 200"
    by (simp only:)
  have r2: "sweep_ready head (Suc (Suc (Suc ?c))) [url1, url2, url3] = [url2]"
    using n1 n3 s2' by (simp add: sweep_ready_def head_ready_def)
  have p2: "sweep_pending head (Suc (Suc (Suc ?c))) [url1, url2, url3] = [url1, url3]"
    using n1 n3 s2' by (simp add: sweep_pending_def head_ready_def)
  have first: "check_generated_images head (st, lg\<lparr>slept := slept lg + 2\<rparr>) =
      Inr (False, st, ?lg2)"
    using p r1 p1 by (simp add: check_generated_images_spec)
  have second: "check_generated_images head (st, ?lg2\<lparr>slept := slept ?lg2 + 2\<rparr>) =
      Inr (True, st\<lparr>pending_urls := [url1, url3], edited_image := url2\<rparr>,
           lg\<lparr>head_requests := head_requests lg @ [url1, url2, url3, url1, url2, url3],
              slept := slept lg + 4\<rparr>)"
    using p r2 p2 by (simp add: check_generated_images_spec)
  have "auto_check_loop head (0 + 1) (st, ?lg2) =
      Inr (True, st\<lparr>pending_urls := [url1, url3], edited_image := url2\<rparr>,
           lg\<lparr>head_requests := head_requests lg @ [url1, url2, url3, url1, url2, url3],
              slept := slept lg + 4\<rparr>)"
    by (subst auto_check_step, subst second) (simp add: p)
  then show ?thesis
    unfolding auto_check_images_def
    by (subst auto_check_step, subst first) (simp add: p)
qed

text \<open>The example world, from a fresh session.\<close>

theorem auto_check_second_sweep_witness:
  "auto_check_images second_sweep_head
     (initial_session_state
        \<lparr>pending_urls := [JStr ''https://cdn.example/1.png'', JStr ''https://cdn.example/2.png'',
                          JStr ''https://cdn.example/3.png'']\<rparr>,
      \<lparr> head_requests = [], slept = 0 \<rparr>) =
   Inr (True,
        \<lparr> pending_urls = [JStr ''https://cdn.example/1.png'', JStr ''https://cdn.example/3.png''],
          edited_image = JStr ''https://cdn.example/2.png'', generated_images = JArr [] \<rparr>,
        \<lparr> head_requests =
            [JStr ''https://cdn.example/1.png'', JStr ''https://cdn.example/2.png'',
             JStr ''https://cdn.example/3.png'', JStr ''https://cdn.example/1.png'',
             JStr ''https://cdn.example/2.png'', JStr ''https://cdn.example/3.png''],
          slept = 4 \<rparr>)"
  using auto_check_second_sweep [of
      "initial_session_state
        \<lparr>pending_urls := [JStr ''https://cdn.example/1.png'', JStr ''https://cdn.example/2.png'',
                          JStr ''https://cdn.example/3.png'']\<rparr>"
      "JStr ''https://cdn.example/1.png''" "JStr ''https://cdn.example/2.png''"
      "JStr ''https://cdn.example/3.png''" second_sweep_head "\<lparr> head_requests = [], slept = 0 \<rparr>"]
  by (simp add: initial_session_state_def second_sweep_head_def)

section \<open>Reading the response in sync mode\<close>

lemma dict_get_keys: "dict_get kvs k = Some v \<Longrightarrow> k \<in> dict_keys kvs"
  by (auto simp add: dict_get_def dict_keys_def dest: map_of_SomeD intro: rev_image_eqI)

lemma dict_get_nonempty: "dict_get kvs k = Some v \<Longrightarrow> kvs \<noteq> []"
  by (auto simp add: dict_get_def)

text \<open>
  Claim C2, as the code has it. Let the response be a dict with both \<^verbatim>\<open>result_url\<close> and
  \<^verbatim>\<open>urls\<close>. On the image-generation tab and after both lifestyle builders the displayed
  image is the value of \<^verbatim>\<open>result_url\<close>. On the generative-fill tab \<^verbatim>\<open>urls\<close> is read
  first: the value of \<^verbatim>\<open>result_url\<close> is displayed only when \<^verbatim>\<open>urls\<close> is empty or
  otherwise falsy; a list of one URL displays that URL, and a longer list displays its
  first URL and replaces the multi-result list.
\<close>

theorem sync_result_precedence:
  assumes a: "dict_get kvs ''result_url'' = Some a"
      and u: "dict_get kvs ''urls'' = Some u"
  shows "(site \<noteq> Generative_Fill \<longrightarrow>
            sync_result site (JObj kvs) st = Inr (st\<lparr>edited_image := a\<rparr>)) \<and>
         (\<not> truthy u \<longrightarrow>
            sync_result Generative_Fill (JObj kvs) st = Inr (st\<lparr>edited_image := a\<rparr>)) \<and>
         (\<forall>x. u = JArr [x] \<longrightarrow>
            sync_result Generative_Fill (JObj kvs) st = Inr (st\<lparr>edited_image := x\<rparr>)) \<and>
         (\<forall>x y ys. u = JArr (x # y # ys) \<longrightarrow>
            sync_result Generative_Fill (JObj kvs) st =
              Inr (st\<lparr>edited_image := x, generated_images := u\<rparr>))"
proof (intro conjI impI allI)
  assume "site \<noteq> Generative_Fill"
  then show "sync_result site (JObj kvs) st = Inr (st\<lparr>edited_image := a\<rparr>)"
    using a dict_get_nonempty [OF a]
    by (cases site) (simp_all add: lifestyle_sync_result_def hd_sync_result_def)
next
  assume "\<not> truthy u"
  then show "sync_result Generative_Fill (JObj kvs) st = Inr (st\<lparr>edited_image := a\<rparr>)"
    using a u dict_get_nonempty [OF a] dict_get_keys [OF a] dict_get_keys [OF u]
    by (simp add: gen_fill_sync_result_def)
next
  fix x
  assume "u = JArr [x]"
  then show "sync_result Generative_Fill (JObj kvs) st = Inr (st\<lparr>edited_image := x\<rparr>)"
    using a u dict_get_nonempty [OF a] dict_get_keys [OF a] dict_get_keys [OF u]
    by (simp add: gen_fill_sync_result_def)
next
  fix x y ys
  assume "u = JArr (x # y # ys)"
  then show "sync_result Generative_Fill (JObj kvs) st =
              Inr (st\<lparr>edited_image := x, generated_images := u\<rparr>)"
    using a u dict_get_nonempty [OF a] dict_get_keys [OF a] dict_get_keys [OF u]
    by (simp add: gen_fill_sync_result_def)
qed

text \<open>
  Claim C2 fails as stated on the generative-fill tab: for the response
  \<^verbatim>\<open>{"result_url": "A", "urls": ["B"]}\<close> the displayed image is \<^verbatim>\<open>"B"\<close>.
\<close>

theorem gen_fill_urls_first_counterexample:
  "sync_result Generative_Fill
     (JObj [(''result_url'', JStr ''A''), (''urls'', JArr [JStr ''B''])]) initial_session_state =
   Inr (initial_session_state\<lparr>edited_image := JStr ''B''\<rparr>)"
  by (simp add: gen_fill_sync_result_def dict_keys_def dict_get_def)

text \<open>The same response at the four places.\<close>

theorem sync_result_precedence_witness:
  "sync_result Generate_Image
     (JObj [(''result_url'', JStr ''A''), (''urls'', JArr [JStr ''B''])]) initial_session_state =
     Inr (initial_session_state\<lparr>edited_image := JStr ''A''\<rparr>) \<and>
   sync_result Lifestyle_Text
     (JObj [(''result_url'', JStr ''A''), (''urls'', JArr [JStr ''B''])]) initial_session_state =
     Inr (initial_session_state\<lparr>edited_image := JStr ''A''\<rparr>) \<and>
   sync_result Lifestyle_Image
     (JObj [(''result_url'', JStr ''A''), (''urls'', JArr [JStr ''B''])]) initial_session_state =
     Inr (initial_session_state\<lparr>edited_image := JStr ''A''\<rparr>) \<and>
   sync_result Generative_Fill
     (JObj [(''result_url'', JStr ''A''), (''urls'', JArr [JStr ''B''])]) initial_session_state =
     Inr (initial_session_state\<lparr>edited_image := JStr ''B''\<rparr>)"
  using sync_result_precedence [of "[(''result_url'', JStr ''A''), (''urls'', JArr [JStr ''B''])]"
          "JStr ''A''" "JArr [JStr ''B'']" Generate_Image initial_session_state]
        sync_result_precedence [of "[(''result_url'', JStr ''A''), (''urls'', JArr [JStr ''B''])]"
          "JStr ''A''" "JArr [JStr ''B'']" Lifestyle_Text initial_session_state]
        sync_result_precedence [of "[(''result_url'', JStr ''A''), (''urls'', JArr [JStr ''B''])]"
          "JStr ''A''" "JArr [JStr ''B'']" Lifestyle_Image initial_session_state]
  by (simp add: dict_get_def)

end
